theory Spec2Isabelle
  imports Complex_Main "HOL-Library.Word"
begin

section \<open>The cached fuzzy-matching adapter of \<^verbatim>\<open>Sources/RapidFuzz/rapidfuzz.cpp\<close>\<close>

text \<open>
  The file wraps the rapidfuzz library behind four C functions:
  \<^verbatim>\<open>rapidfuzz_cached_init\<close>, \<^verbatim>\<open>rapidfuzz_cached_ratio\<close>,
  \<^verbatim>\<open>rapidfuzz_cached_deinit\<close> and \<^verbatim>\<open>rapidfuzz_levenshtein\<close>, around the struct
  \<^verbatim>\<open>RapidFuzzCachedRatio\<close>. The embedding below keeps the heap explicit: the functions
  allocate with \<^verbatim>\<open>malloc\<close> and \<^verbatim>\<open>new\<close>, release with \<^verbatim>\<open>free\<close> and an explicit
  destructor call, and the claims are about what is live afterwards.
\<close>

subsection \<open>Data model\<close>

type_synonym byte = "8 word"

type_synonym addr = nat

text \<open>
  A heap cell is one allocation. \<open>Chars\<close> is a \<^verbatim>\<open>char\<close> array obtained from
  \<^verbatim>\<open>malloc\<close>. \<open>Object\<close> is storage obtained from \<^verbatim>\<open>operator new\<close> that holds a
  constructed \<^verbatim>\<open>CachedRatio\<close>: the \<^verbatim>\<open>std::string_view\<close> it was constructed from
  (address and length) and the library's precomputed state. \<open>Storage\<close> is storage
  obtained from \<^verbatim>\<open>operator new\<close> whose object has been destroyed: the allocation is still
  live, only the object in it is gone.
\<close>

datatype 'st cell = Chars "byte list" | Object "addr \<times> nat" 'st | Storage

type_synonym 'st heap = "addr \<Rightarrow> 'st cell option"

definition empty_heap :: "'st heap" where
  "empty_heap = Map.empty"

text \<open>
  The struct of \<^verbatim>\<open>include/rapidfuzz.h\<close>, with the fields the source assigns:
  \<^verbatim>\<open>char *buffer\<close>, \<^verbatim>\<open>size_t buflen\<close> and the untyped pointer \<^verbatim>\<open>block\<close>. A pointer is
  \<open>None\<close> for \<^verbatim>\<open>NULL\<close>. \<^verbatim>\<open>buflen\<close> is a \<open>nat\<close>: it is the length of a string that
  lies in memory together with its terminator, so \<^verbatim>\<open>buflen + 1\<close> does not wrap.
\<close>

record RapidFuzzCachedRatio =
  buffer :: "addr option"
  buflen :: nat
  block :: "addr option"

text \<open>
  The rapidfuzz library is not part of the repository; it is a parameter. \<open>construct\<close> is
  the constructor of \<^verbatim>\<open>rapidfuzz::fuzz::RATIO_TYPE<std::string_view>\<close> applied to the bytes
  of a view, \<open>ratio\<close> its method \<^verbatim>\<open>ratio\<close>, and \<open>normalized_levenshtein\<close> the free function
  \<^verbatim>\<open>rapidfuzz::string_metric::normalized_levenshtein\<close>. A \<^verbatim>\<open>double\<close> is modelled as a
  \<open>real\<close>: rounding is not modelled.
\<close>

record 'st collaborator =
  construct :: "byte list \<Rightarrow> 'st"
  ratio :: "'st \<Rightarrow> byte list \<Rightarrow> real"
  normalized_levenshtein :: "byte list \<Rightarrow> byte list \<Rightarrow> real"

text \<open>
  What the allocator answers during one call of \<^verbatim>\<open>rapidfuzz_cached_init\<close>: the address
  \<^verbatim>\<open>malloc\<close> would hand out and the address \<^verbatim>\<open>operator new\<close> would hand out, \<open>None\<close>
  when the request is refused. An address that is already live cannot be handed out
  again; such an answer counts as a refusal. The memory \<^verbatim>\<open>malloc\<close> hands out is not
  initialised: \<open>malloc_fill\<close> is the byte it happens to hold.
\<close>

record allocator =
  malloc_at :: "addr option"
  malloc_fill :: byte
  new_at :: "addr option"

text \<open>
  How a call of \<^verbatim>\<open>rapidfuzz_cached_init\<close> ends: it returns a struct, or the
  \<^verbatim>\<open>std::bad_alloc\<close> of the \<^verbatim>\<open>new\<close> expression leaves the function.
\<close>

datatype 'a completion = Normal 'a | Bad_alloc

subsection \<open>The C library and the C++ runtime\<close>

text \<open>
  \<^verbatim>\<open>malloc\<close> returns \<^verbatim>\<open>NULL\<close> (\<open>None\<close>) or a new cell of \<open>n\<close> uninitialised bytes.
  \<^verbatim>\<open>free\<close> releases a cell that \<^verbatim>\<open>malloc\<close> returned; on any other address its behaviour
  is undefined (\<open>None\<close>). A \<^verbatim>\<open>new\<close> expression obtains storage and constructs the object
  in it, or throws \<^verbatim>\<open>std::bad_alloc\<close> (\<open>None\<close>). The explicit destructor call
  \<^verbatim>\<open>block->~CachedRatio()\<close> ends the object and keeps its storage; on an address that
  holds no object its behaviour is undefined (\<open>None\<close>).
\<close>

definition malloc :: "'st heap \<Rightarrow> allocator \<Rightarrow> nat \<Rightarrow> (addr \<times> 'st heap) option" where
  "malloc heap al n =
     (case malloc_at al of
        None \<Rightarrow> None
      | Some p \<Rightarrow>
          if heap p = None then Some (p, heap(p \<mapsto> Chars (replicate n (malloc_fill al))))
          else None)"

definition free :: "'st heap \<Rightarrow> addr \<Rightarrow> 'st heap option" where
  "free heap p = (case heap p of Some (Chars bs) \<Rightarrow> Some (heap(p := None)) | _ \<Rightarrow> None)"

definition operator_new :: "'st heap \<Rightarrow> allocator \<Rightarrow> 'st cell \<Rightarrow> (addr \<times> 'st heap) option" where
  "operator_new heap al obj =
     (case new_at al of
        None \<Rightarrow> None
      | Some q \<Rightarrow> if heap q = None then Some (q, heap(q \<mapsto> obj)) else None)"

definition destructor :: "'st heap \<Rightarrow> addr \<Rightarrow> 'st heap option" where
  "destructor heap q = (case heap q of Some (Object v st) \<Rightarrow> Some (heap(q \<mapsto> Storage)) | _ \<Rightarrow> None)"

text \<open>
  \<^verbatim>\<open>strlen\<close> counts the bytes before the first zero byte of the memory at its argument.
  \<^verbatim>\<open>memcpy\<close>, the store through \<^verbatim>\<open>cache.buffer[i]\<close> and the bytes a
  \<^verbatim>\<open>std::string_view\<close> sees work on the \<^verbatim>\<open>char\<close> array of a cell. The source applies
  them to the buffer it has just allocated, within its \<^verbatim>\<open>buflen + 1\<close> bytes.
\<close>

definition strlen :: "byte list \<Rightarrow> nat" where
  "strlen mem = length (takeWhile (\<lambda>b. b \<noteq> 0) mem)"

definition memcpy :: "'st heap \<Rightarrow> addr \<Rightarrow> byte list \<Rightarrow> nat \<Rightarrow> 'st heap" where
  "memcpy heap dst src n =
     (case heap dst of Some (Chars bs) \<Rightarrow> heap(dst \<mapsto> Chars (take n src @ drop n bs)) | _ \<Rightarrow> heap)"

definition store_char :: "'st heap \<Rightarrow> addr \<Rightarrow> nat \<Rightarrow> byte \<Rightarrow> 'st heap" where
  "store_char heap dst i b =
     (case heap dst of Some (Chars bs) \<Rightarrow> heap(dst \<mapsto> Chars (bs[i := b])) | _ \<Rightarrow> heap)"

definition string_view :: "'st heap \<Rightarrow> addr \<Rightarrow> nat \<Rightarrow> byte list" where
  "string_view heap p n = (case heap p of Some (Chars bs) \<Rightarrow> take n bs | _ \<Rightarrow> [])"

subsection \<open>The four functions\<close>

text \<open>
  \<^verbatim>\<open>rapidfuzz_cached_null\<close>: \<^verbatim>\<open>cached.buffer = NULL; cached.buflen = 0; cached.block = NULL;\<close>
\<close>

definition rapidfuzz_cached_null :: RapidFuzzCachedRatio where
  "rapidfuzz_cached_null = \<lparr>buffer = None, buflen = 0, block = None\<rparr>"

text \<open>
  \<^verbatim>\<open>rapidfuzz_cached_init(const char *str)\<close>. The argument \<open>str\<close> of the model is the
  caller's byte sequence; \<open>mem\<close>, these bytes followed by a terminator, is what memory
  holds at the pointer. The function
  \<^item> sets \<^verbatim>\<open>cache.buflen = strlen(str)\<close>;
  \<^item> sets \<^verbatim>\<open>cache.buffer = (char *) malloc(cache.buflen + 1)\<close> and returns
    \<^verbatim>\<open>rapidfuzz_cached_null()\<close> when that is \<^verbatim>\<open>NULL\<close>;
  \<^item> copies with \<^verbatim>\<open>memcpy(cache.buffer, str, cache.buflen)\<close> and stores the terminator,
    \<^verbatim>\<open>cache.buffer[cache.buflen] = 0\<close>;
  \<^item> sets \<^verbatim>\<open>cache.block = new CachedRatio(std::string_view(cache.buffer, cache.buflen))\<close>
    and returns \<^verbatim>\<open>cache\<close>.
  The \<^verbatim>\<open>new\<close> expression is not guarded: when it throws, the call ends with
  \<open>Bad_alloc\<close> and the heap as it is at that point.
\<close>

definition rapidfuzz_cached_init ::
  "'st collaborator \<Rightarrow> allocator \<Rightarrow> byte list \<Rightarrow> 'st heap \<Rightarrow>
     RapidFuzzCachedRatio completion \<times> 'st heap" where
  "rapidfuzz_cached_init C al str heap =
     (let mem = str @ [0];
          cache = rapidfuzz_cached_null;
          cache = cache\<lparr>buflen := strlen mem\<rparr>
      in case malloc heap al (buflen cache + 1) of
           None \<Rightarrow> (Normal rapidfuzz_cached_null, heap)
         | Some (p, heap1) \<Rightarrow>
             let cache = cache\<lparr>buffer := Some p\<rparr>;
                 heap2 = memcpy heap1 p mem (buflen cache);
                 heap3 = store_char heap2 p (buflen cache) 0;
                 obj = Object (p, buflen cache) (construct C (string_view heap3 p (buflen cache)))
             in (case operator_new heap3 al obj of
                   None \<Rightarrow> (Bad_alloc, heap3)
                 | Some (q, heap4) \<Rightarrow> (Normal (cache\<lparr>block := Some q\<rparr>), heap4)))"

text \<open>
  \<^verbatim>\<open>rapidfuzz_cached_ratio(cached, str, len)\<close>; \<open>cand\<close> is the \<^verbatim>\<open>len\<close> bytes at
  \<^verbatim>\<open>str\<close>. It returns 1 when \<^verbatim>\<open>cached.buffer == NULL || cached.block == NULL\<close>;
  otherwise \<^verbatim>\<open>score = block->ratio(std::string_view(str, len))\<close> and the result is
  \<^verbatim>\<open>1 - (score / 100)\<close>. The result is \<open>None\<close> when \<^verbatim>\<open>block\<close> does not point to a live
  object: the call through it is undefined.
\<close>

definition rapidfuzz_cached_ratio ::
  "'st collaborator \<Rightarrow> RapidFuzzCachedRatio \<Rightarrow> byte list \<Rightarrow> 'st heap \<Rightarrow> real option" where
  "rapidfuzz_cached_ratio C cached cand heap =
     (if buffer cached = None \<or> block cached = None then Some 1
      else case block cached of
             None \<Rightarrow> None
           | Some q \<Rightarrow>
               (case heap q of
                  Some (Object v st) \<Rightarrow> let score = ratio C st cand in Some (1 - score / 100)
                | _ \<Rightarrow> None))"

text \<open>
  \<^verbatim>\<open>rapidfuzz_cached_deinit(cached)\<close>, in the two steps of the source. First, when
  \<^verbatim>\<open>cached->block != NULL\<close>: \<^verbatim>\<open>block->~CachedRatio(); cached->block = NULL;\<close>. Then,
  when \<^verbatim>\<open>cached->buffer != NULL\<close>:
  \<^verbatim>\<open>free(cached->buffer); cached->buffer = NULL; cached->buflen = 0;\<close>. The result is
  \<open>None\<close> when a step is undefined.
\<close>

definition deinit_block ::
  "RapidFuzzCachedRatio \<Rightarrow> 'st heap \<Rightarrow> (RapidFuzzCachedRatio \<times> 'st heap) option" where
  "deinit_block cached heap =
     (case block cached of
        None \<Rightarrow> Some (cached, heap)
      | Some q \<Rightarrow>
          (case destructor heap q of
             None \<Rightarrow> None
           | Some heap' \<Rightarrow> Some (cached\<lparr>block := None\<rparr>, heap')))"

definition deinit_buffer ::
  "RapidFuzzCachedRatio \<Rightarrow> 'st heap \<Rightarrow> (RapidFuzzCachedRatio \<times> 'st heap) option" where
  "deinit_buffer cached heap =
     (case buffer cached of
        None \<Rightarrow> Some (cached, heap)
      | Some p \<Rightarrow>
          (case free heap p of
             None \<Rightarrow> None
           | Some heap' \<Rightarrow> Some (cached\<lparr>buffer := None, buflen := 0\<rparr>, heap')))"

definition rapidfuzz_cached_deinit ::
  "RapidFuzzCachedRatio \<Rightarrow> 'st heap \<Rightarrow> (RapidFuzzCachedRatio \<times> 'st heap) option" where
  "rapidfuzz_cached_deinit cached heap =
     (case deinit_block cached heap of
        None \<Rightarrow> None
      | Some (cached', heap') \<Rightarrow> deinit_buffer cached' heap')"

text \<open>
  \<^verbatim>\<open>rapidfuzz_levenshtein(s1, len1, s2, len2)\<close>:
  \<^verbatim>\<open>score = normalized_levenshtein(std::string_view(s1, len1), std::string_view(s2, len2))\<close>
  and the result is \<^verbatim>\<open>1 - (score / 100)\<close>.
\<close>

definition rapidfuzz_levenshtein :: "'st collaborator \<Rightarrow> byte list \<Rightarrow> byte list \<Rightarrow> real" where
  "rapidfuzz_levenshtein C s1 s2 =
     (let score = normalized_levenshtein C s1 s2 in 1 - score / 100)"

subsection \<open>Vocabulary of the statements\<close>

text \<open>
  \<open>c_string str\<close> is the C string that starts at the pointer \<open>rapidfuzz_cached_init\<close>
  receives: the bytes of \<open>str\<close> before its first zero byte, all of \<open>str\<close> when it has
  none.
\<close>

definition c_string :: "byte list \<Rightarrow> byte list" where
  "c_string str = takeWhile (\<lambda>b. b \<noteq> 0) str"

text \<open>
  A handle is ready in a heap when its buffer points to a live \<^verbatim>\<open>char\<close> array and its
  block points to a live \<^verbatim>\<open>CachedRatio\<close> object.
\<close>

definition ready :: "RapidFuzzCachedRatio \<Rightarrow> 'st heap \<Rightarrow> bool" where
  "ready cached heap =
     (case (buffer cached, block cached) of
        (Some p, Some q) \<Rightarrow>
          (case (heap p, heap q) of
             (Some (Chars bs), Some (Object v st)) \<Rightarrow> True
           | _ \<Rightarrow> False)
      | _ \<Rightarrow> False)"

text \<open>
  The configurations (handle variable and heap) a caller reaches with the public
  operations: it starts from the null handle, assigns the result of a create that
  returned, or passes the handle to destroy.
\<close>

inductive reachable :: "'st collaborator \<Rightarrow> RapidFuzzCachedRatio \<times> 'st heap \<Rightarrow> bool"
  for C :: "'st collaborator" where
  start: "reachable C (rapidfuzz_cached_null, heap)"
| create: "reachable C (cached, heap) \<Longrightarrow>
     rapidfuzz_cached_init C al str heap = (Normal cached', heap') \<Longrightarrow>
     reachable C (cached', heap')"
| destroy: "reachable C (cached, heap) \<Longrightarrow>
     rapidfuzz_cached_deinit cached heap = Some (cached', heap') \<Longrightarrow>
     reachable C (cached', heap')"

text \<open>
  A percentage, the unit of the library's results: a number between 0 and 100.
\<close>

definition percentage :: "real \<Rightarrow> bool" where
  "percentage p = (0 \<le> p \<and> p \<le> 100)"

text \<open>
  Modelled from the spec: \<^verbatim>\<open>rapidfuzz::string_metric::normalized_levenshtein\<close> belongs to
  the rapidfuzz library, which is not in the repository. The spec gives its contract: the
  result is a percentage between 0 and 100, identical inputs score 100, and the
  underlying metric is symmetric.
\<close>

definition levenshtein_contract :: "'st collaborator \<Rightarrow> bool" where
  "levenshtein_contract C =
     (\<forall>a b. percentage (normalized_levenshtein C a b) \<and>
            normalized_levenshtein C a a = 100 \<and>
            normalized_levenshtein C a b = normalized_levenshtein C b a)"

subsection \<open>A concrete collaborator\<close>

text \<open>
  The theorems hold for every collaborator. To run them on concrete inputs one is
  needed: this one keeps the reference bytes as its state and answers 100 for equal
  strings and 0 otherwise.
\<close>

definition exact_match :: "byte list collaborator" where
  "exact_match =
     \<lparr>construct = (\<lambda>s. s),
      ratio = (\<lambda>st c. if st = c then 100 else 0),
      normalized_levenshtein = (\<lambda>a b. if a = b then 100 else 0)\<rparr>"

text \<open>
  A handle for the reference \<^verbatim>\<open>"ki"\<close> and the heap it lives in: the buffer at address 1,
  the object at address 2.
\<close>

definition example_handle :: RapidFuzzCachedRatio where
  "example_handle = \<lparr>buffer = Some 1, buflen = 2, block = Some 2\<rparr>"

definition example_heap :: "byte list heap" where
  "example_heap = empty_heap(1 \<mapsto> Chars [107, 105, 0], 2 \<mapsto> Object (1, 2) [107, 105])"

definition example_allocator :: allocator where
  "example_allocator = \<lparr>malloc_at = Some 1, malloc_fill = 170, new_at = Some 2\<rparr>"

section \<open>Facts about the runtime operations\<close>

lemma strlen_mem: "strlen (str @ [0]) = length (c_string str)"
  by (induction str) (simp_all add: strlen_def c_string_def)

lemma take_mem: "take (length (c_string str)) (str @ [0]) = c_string str"
  by (induction str) (simp_all add: c_string_def)

lemma c_string_no_zero: "0 \<notin> set str \<Longrightarrow> c_string str = str"
  by (induction str) (simp_all add: c_string_def)

lemma drop_replicate_last: "drop n (replicate (n + 1) x) = [x]"
  by (induction n) simp_all

lemma buffer_bytes:
  "(take (length (c_string str)) (str @ [0]) @
      drop (length (c_string str)) (replicate (length (c_string str) + 1) z))
     [length (c_string str) := 0] = c_string str @ [0]"
  by (simp only: take_mem drop_replicate_last list_update_length)

lemma malloc_fresh:
  "malloc_at al = Some p \<Longrightarrow> heap p = None \<Longrightarrow>
     malloc heap al n = Some (p, heap(p \<mapsto> Chars (replicate n (malloc_fill al))))"
  by (simp add: malloc_def)

lemma malloc_granted:
  "malloc heap al n = Some (p, heap') \<Longrightarrow> malloc_at al = Some p \<and> heap p = None"
  by (auto simp: malloc_def split: option.splits if_splits)

lemma memcpy_chars:
  "memcpy (heap(p \<mapsto> Chars bs)) p src n = heap(p \<mapsto> Chars (take n src @ drop n bs))"
  by (simp add: memcpy_def)

lemma store_char_chars:
  "store_char (heap(p \<mapsto> Chars bs)) p i b = heap(p \<mapsto> Chars (bs[i := b]))"
  by (simp add: store_char_def)

lemma string_view_chars:
  "string_view (heap(p \<mapsto> Chars bs)) p n = take n bs"
  by (simp add: string_view_def)

lemma init_buffer_heap:
  "store_char (memcpy (heap(p \<mapsto> Chars (replicate (length (c_string str) + 1) z))) p (str @ [0])
       (length (c_string str))) p (length (c_string str)) 0 =
   heap(p \<mapsto> Chars (c_string str @ [0]))"
  by (simp only: memcpy_chars store_char_chars buffer_bytes)

section \<open>The three ways a create ends\<close>

lemma init_malloc_refused:
  assumes "malloc heap al (strlen (str @ [0]) + 1) = None"
  shows "rapidfuzz_cached_init C al str heap = (Normal rapidfuzz_cached_null, heap)"
  unfolding rapidfuzz_cached_init_def Let_def
  by (simp only: RapidFuzzCachedRatio.simps rapidfuzz_cached_null_def assms option.case)

lemma init_malloc_granted:
  assumes "malloc_at al = Some p" and "heap p = None"
  shows "rapidfuzz_cached_init C al str heap =
     (case operator_new (heap(p \<mapsto> Chars (c_string str @ [0]))) al
             (Object (p, length (c_string str)) (construct C (c_string str))) of
        None \<Rightarrow> (Bad_alloc, heap(p \<mapsto> Chars (c_string str @ [0])))
      | Some (q, heap4) \<Rightarrow>
          (Normal \<lparr>buffer = Some p, buflen = length (c_string str), block = Some q\<rparr>, heap4))"
proof -
  let ?n = "length (c_string str)"
  let ?heap3 = "heap(p \<mapsto> Chars (c_string str @ [0]))"
  have m: "malloc heap al (?n + 1) =
      Some (p, heap(p \<mapsto> Chars (replicate (?n + 1) (malloc_fill al))))"
    using assms by (rule malloc_fresh)
  have sv: "string_view ?heap3 p ?n = c_string str"
    by (simp add: string_view_chars)
  show ?thesis
    unfolding rapidfuzz_cached_init_def Let_def
    by (simp only: RapidFuzzCachedRatio.simps rapidfuzz_cached_null_def strlen_mem m
        option.case prod.case init_buffer_heap sv)
qed

lemma init_new_refused:
  assumes "malloc_at al = Some p" and "heap p = None"
    and "new_at al = None \<or> (\<exists>q. new_at al = Some q \<and> (q = p \<or> heap q \<noteq> None))"
  shows "rapidfuzz_cached_init C al str heap = (Bad_alloc, heap(p \<mapsto> Chars (c_string str @ [0])))"
  using assms by (auto simp: init_malloc_granted [where p = p and heap = heap] operator_new_def)

lemma init_ok:
  assumes "malloc_at al = Some p" and "heap p = None"
    and "new_at al = Some q" and "heap q = None" and "q \<noteq> p"
  shows "rapidfuzz_cached_init C al str heap =
     (Normal \<lparr>buffer = Some p, buflen = length (c_string str), block = Some q\<rparr>,
      heap(p \<mapsto> Chars (c_string str @ [0]),
           q \<mapsto> Object (p, length (c_string str)) (construct C (c_string str))))"
  using assms by (simp add: init_malloc_granted [where p = p and heap = heap] operator_new_def)

text \<open>
  Whenever a create returns a handle, the handle is the null handle or it is ready, with
  the buffer and the object the shape \<open>init_ok\<close> describes.
\<close>

lemma init_returns:
  assumes "rapidfuzz_cached_init C al str heap = (Normal cached, heap')"
  shows "(cached = rapidfuzz_cached_null \<and> heap' = heap) \<or>
         (\<exists>p q. heap p = None \<and> heap q = None \<and> q \<noteq> p \<and>
            cached = \<lparr>buffer = Some p, buflen = length (c_string str), block = Some q\<rparr> \<and>
            heap' = heap(p \<mapsto> Chars (c_string str @ [0]),
                         q \<mapsto> Object (p, length (c_string str)) (construct C (c_string str))))"
proof (cases "malloc heap al (strlen (str @ [0]) + 1)")
  case None
  with assms show ?thesis
    by (simp add: init_malloc_refused)
next
  case (Some r)
  obtain p heap1 where r: "r = (p, heap1)"
    by (cases r)
  from Some r have p: "malloc_at al = Some p" "heap p = None"
    using malloc_granted by blast+
  show ?thesis
  proof (cases "new_at al")
    case None
    with assms p show ?thesis
      by (simp add: init_new_refused [where p = p and heap = heap])
  next
    case (Some q)
    show ?thesis
    proof (cases "heap q = None \<and> q \<noteq> p")
      case True
      with assms p Some show ?thesis
        by (auto simp: init_ok [where p = p and q = q and heap = heap])
    next
      case False
      with Some have "new_at al = None \<or> (\<exists>q. new_at al = Some q \<and> (q = p \<or> heap q \<noteq> None))"
        by blast
      from init_new_refused [OF p this, of C str] assms show ?thesis
        by simp
    qed
  qed
qed

lemma init_returns_ready:
  assumes "rapidfuzz_cached_init C al str heap = (Normal cached, heap')"
  shows "cached = rapidfuzz_cached_null \<or> ready cached heap'"
  using init_returns [OF assms] by (auto simp: ready_def)

section \<open>What a destroy does\<close>

lemma deinit_null:
  "rapidfuzz_cached_deinit rapidfuzz_cached_null heap = Some (rapidfuzz_cached_null, heap)"
  by (simp add: rapidfuzz_cached_deinit_def deinit_block_def deinit_buffer_def
      rapidfuzz_cached_null_def)

lemma ready_cells:
  assumes "ready cached heap"
  obtains p q bs v st where "buffer cached = Some p" and "block cached = Some q"
    and "heap p = Some (Chars bs)" and "heap q = Some (Object v st)" and "p \<noteq> q"
proof -
  from assms obtain p q bs v st where c: "buffer cached = Some p" "block cached = Some q"
      "heap p = Some (Chars bs)" "heap q = Some (Object v st)"
    by (auto simp: ready_def split: option.splits cell.splits)
  then have "p \<noteq> q"
    by auto
  with c show ?thesis
    by (rule that)
qed

lemma deinit_ready:
  assumes "ready cached heap"
  shows "\<exists>p q. buffer cached = Some p \<and> block cached = Some q \<and> p \<noteq> q \<and>
           rapidfuzz_cached_deinit cached heap =
             Some (rapidfuzz_cached_null, (heap(q \<mapsto> Storage))(p := None))"
proof -
  from assms obtain p q bs v st where c: "buffer cached = Some p" "block cached = Some q"
      "heap p = Some (Chars bs)" "heap q = Some (Object v st)" "p \<noteq> q"
    by (rule ready_cells)
  have b: "deinit_block cached heap = Some (cached\<lparr>block := None\<rparr>, heap(q \<mapsto> Storage))"
    using c by (simp add: deinit_block_def destructor_def)
  have f: "deinit_buffer (cached\<lparr>block := None\<rparr>) (heap(q \<mapsto> Storage)) =
      Some (rapidfuzz_cached_null, (heap(q \<mapsto> Storage))(p := None))"
    using c by (simp add: deinit_buffer_def free_def rapidfuzz_cached_null_def)
  from b f c show ?thesis
    by (simp add: rapidfuzz_cached_deinit_def)
qed

section \<open>The example handle\<close>

lemma example_run:
  "rapidfuzz_cached_init exact_match example_allocator [107, 105] empty_heap =
     (Normal example_handle, example_heap)"
proof -
  have cs: "c_string [107, 105] = [107, 105 :: byte]"
    by (simp add: c_string_def)
  have len: "length [107, 105 :: byte] = 2"
    by simp
  have st: "construct exact_match [107, 105] = [107, 105]"
    by (simp add: exact_match_def)
  have "rapidfuzz_cached_init exact_match example_allocator [107, 105] empty_heap =
     (Normal \<lparr>buffer = Some 1, buflen = length (c_string [107, 105]), block = Some 2\<rparr>,
      empty_heap(1 \<mapsto> Chars (c_string [107, 105] @ [0]),
                 2 \<mapsto> Object (1, length (c_string [107, 105]))
                     (construct exact_match (c_string [107, 105]))))"
    by (rule init_ok) (simp_all add: example_allocator_def empty_heap_def)
  then show ?thesis
    by (simp only: cs len st example_handle_def example_heap_def append.simps)
qed

lemma example_ready: "ready example_handle example_heap"
  by (simp add: ready_def example_handle_def example_heap_def)

lemma example_not_null: "example_handle \<noteq> rapidfuzz_cached_null"
  by (simp add: example_handle_def rapidfuzz_cached_null_def)

lemma example_destroy:
  "rapidfuzz_cached_deinit example_handle example_heap =
     Some (rapidfuzz_cached_null, empty_heap(2 \<mapsto> Storage))"
proof -
  from deinit_ready [OF example_ready]
  have "rapidfuzz_cached_deinit example_handle example_heap =
      Some (rapidfuzz_cached_null, (example_heap(2 \<mapsto> Storage))(1 := None))"
    by (simp add: example_handle_def)
  moreover have "(example_heap(2 \<mapsto> Storage))(1 := None) = empty_heap(2 \<mapsto> Storage)"
    by (auto simp: fun_eq_iff example_heap_def empty_heap_def)
  ultimately show ?thesis
    by simp
qed

section \<open>Scoring against an empty handle\<close>

text \<open>
  C1. For every handle whose buffer and block are both absent (the null handle, the
  handle of a create whose \<^verbatim>\<open>malloc\<close> failed, a handle after destroy), every candidate
  and every heap, \<^verbatim>\<open>rapidfuzz_cached_ratio\<close> returns exactly 1.
\<close>

theorem score_empty_handle:
  "buffer cached = None \<and> block cached = None \<Longrightarrow>
     rapidfuzz_cached_ratio C cached cand heap = Some 1"
  by (simp add: rapidfuzz_cached_ratio_def)

theorem score_empty_handle_witness:
  "buffer rapidfuzz_cached_null = None \<and> block rapidfuzz_cached_null = None \<and>
   rapidfuzz_cached_ratio exact_match rapidfuzz_cached_null [107, 105] example_heap = Some 1"
  using score_empty_handle [of rapidfuzz_cached_null exact_match "[107, 105]" example_heap]
  by (simp add: rapidfuzz_cached_null_def)

section \<open>Destroy\<close>

text \<open>
  C2. For every handle in a state of the lifecycle, the null handle or a handle that is
  ready in the heap, \<^verbatim>\<open>rapidfuzz_cached_deinit\<close> returns and leaves the handle with buffer
  absent, block absent and \<^verbatim>\<open>buflen\<close> 0; a second destroy of that handle returns too and
  changes neither the handle nor the heap.
\<close>

theorem destroy_leaves_empty:
  assumes "cached = rapidfuzz_cached_null \<or> ready cached heap"
  shows "\<exists>cached' heap'.
           rapidfuzz_cached_deinit cached heap = Some (cached', heap') \<and>
           buffer cached' = None \<and> block cached' = None \<and> buflen cached' = 0 \<and>
           rapidfuzz_cached_deinit cached' heap' = Some (cached', heap')"
proof -
  have n: "buffer rapidfuzz_cached_null = None \<and> block rapidfuzz_cached_null = None \<and>
      buflen rapidfuzz_cached_null = 0"
    by (simp add: rapidfuzz_cached_null_def)
  from assms show ?thesis
  proof
    assume "cached = rapidfuzz_cached_null"
    with n show ?thesis
      by (metis deinit_null)
  next
    assume "ready cached heap"
    then obtain heap' where
      "rapidfuzz_cached_deinit cached heap = Some (rapidfuzz_cached_null, heap')"
      using deinit_ready by blast
    with n show ?thesis
      by (metis deinit_null)
  qed
qed

theorem destroy_leaves_empty_witness:
  "ready example_handle example_heap \<and>
   (\<exists>cached' heap'.
      rapidfuzz_cached_deinit example_handle example_heap = Some (cached', heap') \<and>
      buffer cached' = None \<and> block cached' = None \<and> buflen cached' = 0 \<and>
      rapidfuzz_cached_deinit cached' heap' = Some (cached', heap'))"
  using destroy_leaves_empty [of example_handle example_heap] example_ready
  by simp

section \<open>The handle is never in a mixed state\<close>

text \<open>
  C9. In every configuration reachable through the public operations (the null handle,
  a handle a create returned, a handle after destroy) the fields are coupled: buffer is
  \<^verbatim>\<open>NULL\<close> exactly when block is \<^verbatim>\<open>NULL\<close>, and then \<^verbatim>\<open>buflen\<close> is 0. The handle is
  the null handle or it is ready in the heap.
\<close>

theorem reachable_handle_coupled:
  assumes "reachable C (cached, heap)"
  shows "(buffer cached = None \<longleftrightarrow> block cached = None) \<and>
         (buffer cached = None \<longrightarrow> buflen cached = 0) \<and>
         (cached = rapidfuzz_cached_null \<or> ready cached heap)"
proof -
  have inv: "fst s = rapidfuzz_cached_null \<or> ready (fst s) (snd s)" if "reachable C s" for s
    using that
  proof (induction rule: reachable.induct)
    case (start heap)
    show ?case by simp
  next
    case (create cached heap al str cached' heap')
    from create.hyps(2) show ?case
      by (simp add: init_returns_ready)
  next
    case (destroy cached heap cached' heap')
    from destroy.IH have "rapidfuzz_cached_deinit cached heap = Some (rapidfuzz_cached_null, heap) \<or>
        (\<exists>h. rapidfuzz_cached_deinit cached heap = Some (rapidfuzz_cached_null, h))"
      using deinit_null deinit_ready by fastforce
    with destroy.hyps(2) show ?case
      by auto
  qed
  from inv [OF assms] have "cached = rapidfuzz_cached_null \<or> ready cached heap"
    by simp
  then show ?thesis
    by (auto simp: rapidfuzz_cached_null_def ready_def split: option.splits)
qed

theorem reachable_handle_coupled_witness:
  "reachable exact_match (example_handle, example_heap) \<and>
   buffer example_handle \<noteq> None \<and> block example_handle \<noteq> None \<and>
   ready example_handle example_heap \<and>
   reachable exact_match (rapidfuzz_cached_null, empty_heap(2 \<mapsto> Storage)) \<and>
   buffer rapidfuzz_cached_null = None \<and> block rapidfuzz_cached_null = None \<and>
   buflen rapidfuzz_cached_null = 0"
proof -
  have r: "reachable exact_match (example_handle, example_heap)"
    using reachable.create [OF reachable.start example_run] .
  have n: "reachable exact_match (rapidfuzz_cached_null, empty_heap(2 \<mapsto> Storage))"
    using reachable.destroy [OF r example_destroy] .
  have b: "buffer rapidfuzz_cached_null = None"
    by (simp add: rapidfuzz_cached_null_def)
  from reachable_handle_coupled [OF r] reachable_handle_coupled [OF n] example_not_null r n b
  show ?thesis
    by (simp add: example_handle_def)
qed

section \<open>Scoring against a ready handle\<close>

lemma ratio_of_created:
  assumes "rapidfuzz_cached_init C al str heap = (Normal cached, heap')"
    and "cached \<noteq> rapidfuzz_cached_null"
  shows "rapidfuzz_cached_ratio C cached cand heap' =
           Some (1 - ratio C (construct C (c_string str)) cand / 100)"
  using init_returns [OF assms(1)] assms(2)
  by (auto simp: rapidfuzz_cached_ratio_def)

text \<open>
  C4. For every handle a create returned in the ready state, made from the C string \<open>r\<close>
  that starts at the argument (\<open>c_string str\<close>, which is \<open>str\<close> itself when \<open>str\<close> has no
  zero byte), and every candidate \<open>c\<close>, \<^verbatim>\<open>rapidfuzz_cached_ratio\<close> returns \<open>1 - p / 100\<close>
  where \<open>p\<close> is the library's ratio of the state built from \<open>r\<close> against \<open>c\<close>. When \<open>p\<close> is
  a percentage the result lies between 0 and 1, and when the library scores \<open>r\<close> against
  itself at 100 the result for the candidate \<open>r\<close> is 0.
\<close>

theorem score_ready_handle:
  assumes "rapidfuzz_cached_init C al str heap = (Normal cached, heap')"
    and "cached \<noteq> rapidfuzz_cached_null"
  shows "rapidfuzz_cached_ratio C cached cand heap' =
           Some (1 - ratio C (construct C (c_string str)) cand / 100) \<and>
         (percentage (ratio C (construct C (c_string str)) cand) \<longrightarrow>
            (\<exists>s. rapidfuzz_cached_ratio C cached cand heap' = Some s \<and> 0 \<le> s \<and> s \<le> 1)) \<and>
         (ratio C (construct C (c_string str)) (c_string str) = 100 \<longrightarrow>
            rapidfuzz_cached_ratio C cached (c_string str) heap' = Some 0) \<and>
         (0 \<notin> set str \<longrightarrow> c_string str = str)"
proof -
  have s: "rapidfuzz_cached_ratio C cached x heap' =
      Some (1 - ratio C (construct C (c_string str)) x / 100)" for x
    using assms by (rule ratio_of_created)
  show ?thesis
    by (simp add: s percentage_def c_string_no_zero)
qed

theorem score_ready_handle_witness:
  "rapidfuzz_cached_init exact_match example_allocator [107, 105] empty_heap =
     (Normal example_handle, example_heap) \<and>
   example_handle \<noteq> rapidfuzz_cached_null \<and>
   0 \<notin> set [107, 105 :: byte] \<and> c_string [107, 105] = [107, 105] \<and>
   percentage (ratio exact_match (construct exact_match (c_string [107, 105])) [115, 105]) \<and>
   rapidfuzz_cached_ratio exact_match example_handle [115, 105] example_heap = Some 1 \<and>
   ratio exact_match (construct exact_match (c_string [107, 105])) (c_string [107, 105]) = 100 \<and>
   rapidfuzz_cached_ratio exact_match example_handle [107, 105] example_heap = Some 0"
proof -
  have z: "0 \<notin> set [107, 105 :: byte]"
    by simp
  have p: "percentage (ratio exact_match (construct exact_match (c_string [107, 105])) [115, 105])"
    by (simp add: exact_match_def percentage_def c_string_def)
  have i: "ratio exact_match (construct exact_match (c_string [107, 105])) (c_string [107, 105]) = 100"
    by (simp add: exact_match_def)
  note t = score_ready_handle [OF example_run example_not_null, of "[115, 105]"]
  from t z have cs: "c_string [107, 105] = [107, 105 :: byte]"
    by blast
  from t i have "rapidfuzz_cached_ratio exact_match example_handle (c_string [107, 105])
      example_heap = Some 0"
    by blast
  then have s0: "rapidfuzz_cached_ratio exact_match example_handle [107, 105] example_heap = Some 0"
    by (simp only: cs)
  from t have "rapidfuzz_cached_ratio exact_match example_handle [115, 105] example_heap =
      Some (1 - ratio exact_match (construct exact_match (c_string [107, 105])) [115, 105] / 100)"
    by blast
  then have s1: "rapidfuzz_cached_ratio exact_match example_handle [115, 105] example_heap = Some 1"
    by (simp add: cs exact_match_def)
  from example_run example_not_null z cs p s1 i s0 show ?thesis
    by blast
qed

section \<open>Creating a handle from the empty string\<close>

text \<open>
  C10. When both allocations succeed, a create from the empty string returns a ready
  handle with \<^verbatim>\<open>buflen\<close> 0 whose buffer (holding the terminator alone) and block are
  both present; it is not the null handle, and every score against it is \<open>1 - p / 100\<close>
  for the library's ratio \<open>p\<close> of the state built from the empty string, not the fixed 1
  of an empty handle.
\<close>

theorem create_from_empty_string:
  assumes "malloc_at al = Some p" and "heap p = None"
    and "new_at al = Some q" and "heap q = None" and "q \<noteq> p"
  shows "\<exists>cached heap'.
           rapidfuzz_cached_init C al [] heap = (Normal cached, heap') \<and>
           buffer cached = Some p \<and> buflen cached = 0 \<and> block cached = Some q \<and>
           cached \<noteq> rapidfuzz_cached_null \<and> ready cached heap' \<and>
           heap' p = Some (Chars [0]) \<and>
           (\<forall>cand. rapidfuzz_cached_ratio C cached cand heap' =
                     Some (1 - ratio C (construct C []) cand / 100))"
proof -
  let ?cached = "\<lparr>buffer = Some p, buflen = 0, block = Some q\<rparr>"
  let ?heap' = "heap(p \<mapsto> Chars [0], q \<mapsto> Object (p, 0) (construct C []))"
  have cs: "c_string [] = []"
    by (simp add: c_string_def)
  have i: "rapidfuzz_cached_init C al [] heap = (Normal ?cached, ?heap')"
    using init_ok [OF assms, of C "[]"] by (simp add: cs)
  have nn: "?cached \<noteq> rapidfuzz_cached_null"
    by (simp add: rapidfuzz_cached_null_def)
  have r: "ready ?cached ?heap'"
    using assms(5) by (simp add: ready_def)
  have b: "?heap' p = Some (Chars [0])"
    using assms(5) by simp
  have s: "rapidfuzz_cached_ratio C ?cached cand ?heap' =
      Some (1 - ratio C (construct C []) cand / 100)" for cand
    using ratio_of_created [OF i nn, of cand] by (simp add: cs)
  from i nn r b s show ?thesis
    by (intro exI [of _ ?cached] exI [of _ ?heap']) simp
qed

theorem create_from_empty_string_witness:
  "malloc_at example_allocator = Some 1 \<and> empty_heap 1 = (None :: byte list cell option) \<and>
   new_at example_allocator = Some 2 \<and> empty_heap 2 = (None :: byte list cell option) \<and>
   (\<exists>cached heap'.
      rapidfuzz_cached_init exact_match example_allocator [] empty_heap = (Normal cached, heap') \<and>
      buffer cached = Some 1 \<and> buflen cached = 0 \<and> block cached = Some 2 \<and>
      cached \<noteq> rapidfuzz_cached_null \<and> ready cached heap' \<and>
      heap' 1 = Some (Chars [0]) \<and>
      rapidfuzz_cached_ratio exact_match cached [] heap' = Some 0 \<and>
      rapidfuzz_cached_ratio exact_match cached [107] heap' = Some 1)"
proof -
  have a: "malloc_at example_allocator = Some 1" "new_at example_allocator = Some 2"
    by (simp_all add: example_allocator_def)
  have h: "empty_heap 1 = (None :: byte list cell option)"
      "empty_heap 2 = (None :: byte list cell option)"
    by (simp_all add: empty_heap_def)
  have d: "(2::nat) \<noteq> 1"
    by simp
  from create_from_empty_string [OF a(1) h(1) a(2) h(2) d, of exact_match]
  obtain cached heap' where
    c: "rapidfuzz_cached_init exact_match example_allocator [] empty_heap = (Normal cached, heap')"
      "buffer cached = Some 1" "buflen cached = 0" "block cached = Some 2"
      "cached \<noteq> rapidfuzz_cached_null" "ready cached heap'" "heap' 1 = Some (Chars [0])"
      "\<forall>cand. rapidfuzz_cached_ratio exact_match cached cand heap' =
         Some (1 - ratio exact_match (construct exact_match []) cand / 100)"
    by blast
  from c(8) have "rapidfuzz_cached_ratio exact_match cached [] heap' = Some 0"
      "rapidfuzz_cached_ratio exact_match cached [107] heap' = Some 1"
    by (simp_all add: exact_match_def)
  with a h c show ?thesis
    by blast
qed

section \<open>What a successful create builds\<close>

text \<open>
  C6, as the spec states it, asks for \<^verbatim>\<open>buflen\<close> to be the length of the caller's byte
  sequence and for the buffer to be a copy of all of it. The source measures with
  \<^verbatim>\<open>strlen\<close>: for the three bytes \<^verbatim>\<open>a\<close>, zero, \<^verbatim>\<open>b\<close> the handle has \<^verbatim>\<open>buflen\<close> 1 and
  its buffer holds \<^verbatim>\<open>a\<close> and the terminator.
\<close>

theorem create_embedded_zero_counterexample:
  "rapidfuzz_cached_init exact_match example_allocator [97, 0, 98] empty_heap =
     (Normal \<lparr>buffer = Some 1, buflen = 1, block = Some 2\<rparr>,
      empty_heap(1 \<mapsto> Chars [97, 0], 2 \<mapsto> Object (1, 1) [97])) \<and>
   (1::nat) \<noteq> length [97, 0, 98 :: byte] \<and>
   [97, 0 :: byte] \<noteq> [97, 0, 98] @ [0]"
proof -
  have cs: "c_string [97, 0, 98] = [97 :: byte]"
    by (simp add: c_string_def)
  have len: "length [97 :: byte] = 1"
    by simp
  have st: "construct exact_match [97] = [97]"
    by (simp add: exact_match_def)
  have "rapidfuzz_cached_init exact_match example_allocator [97, 0, 98] empty_heap =
     (Normal \<lparr>buffer = Some 1, buflen = length (c_string [97, 0, 98]), block = Some 2\<rparr>,
      empty_heap(1 \<mapsto> Chars (c_string [97, 0, 98] @ [0]),
                 2 \<mapsto> Object (1, length (c_string [97, 0, 98]))
                     (construct exact_match (c_string [97, 0, 98]))))"
    by (rule init_ok) (simp_all add: example_allocator_def empty_heap_def)
  then have "rapidfuzz_cached_init exact_match example_allocator [97, 0, 98] empty_heap =
     (Normal \<lparr>buffer = Some 1, buflen = 1, block = Some 2\<rparr>,
      empty_heap(1 \<mapsto> Chars [97, 0], 2 \<mapsto> Object (1, 1) [97]))"
    by (simp only: cs len st append.simps)
  then show ?thesis
    by simp
qed

text \<open>
  C6, amended. When both allocations succeed, create returns a ready handle. Its buffer
  is a fresh allocation (the address was not live before) that holds the C string at the
  argument, the bytes before the first zero byte, followed by a terminator; \<^verbatim>\<open>buflen\<close>
  is the length of that C string, found by scanning for the terminator; the object in the
  block was constructed from the view of \<^verbatim>\<open>buflen\<close> bytes over that buffer; no other
  address of the heap changes. For a reference without a zero byte the C string is the
  whole reference: \<^verbatim>\<open>buflen\<close> is its length and the buffer is a terminated copy of it.
\<close>

theorem create_copies_c_string:
  assumes "malloc_at al = Some p" and "heap p = None"
    and "new_at al = Some q" and "heap q = None" and "q \<noteq> p"
  shows "\<exists>cached heap'.
           rapidfuzz_cached_init C al str heap = (Normal cached, heap') \<and>
           ready cached heap' \<and>
           buffer cached = Some p \<and> heap' p = Some (Chars (c_string str @ [0])) \<and>
           buflen cached = length (c_string str) \<and>
           block cached = Some q \<and>
           heap' q = Some (Object (p, buflen cached)
                       (construct C (string_view heap' p (buflen cached)))) \<and>
           string_view heap' p (buflen cached) = c_string str \<and>
           (\<forall>a. a \<noteq> p \<and> a \<noteq> q \<longrightarrow> heap' a = heap a) \<and>
           (0 \<notin> set str \<longrightarrow>
              buflen cached = length str \<and> heap' p = Some (Chars (str @ [0])))"
proof -
  let ?n = "length (c_string str)"
  let ?cached = "\<lparr>buffer = Some p, buflen = ?n, block = Some q\<rparr>"
  let ?heap' = "heap(p \<mapsto> Chars (c_string str @ [0]),
                     q \<mapsto> Object (p, ?n) (construct C (c_string str)))"
  have i: "rapidfuzz_cached_init C al str heap = (Normal ?cached, ?heap')"
    using assms by (rule init_ok)
  have r: "ready ?cached ?heap'"
    using assms(5) by (simp add: ready_def)
  have b: "?heap' p = Some (Chars (c_string str @ [0]))"
    using assms(5) by simp
  have v: "string_view ?heap' p ?n = c_string str"
    using assms(5) by (simp add: string_view_def)
  have o: "?heap' q = Some (Object (p, ?n) (construct C (string_view ?heap' p ?n)))"
    by (simp only: v) simp
  have f: "\<forall>a. a \<noteq> p \<and> a \<noteq> q \<longrightarrow> ?heap' a = heap a"
    by simp
  have z: "0 \<notin> set str \<longrightarrow> ?n = length str \<and> ?heap' p = Some (Chars (str @ [0]))"
    using assms(5) by (simp add: c_string_no_zero)
  from i r b v o f z assms(5) show ?thesis
    by (intro exI [of _ ?cached] exI [of _ ?heap']) simp
qed

theorem create_copies_c_string_witness:
  "malloc_at example_allocator = Some 1 \<and> empty_heap 1 = (None :: byte list cell option) \<and>
   new_at example_allocator = Some 2 \<and> empty_heap 2 = (None :: byte list cell option) \<and>
   0 \<notin> set [107, 105 :: byte] \<and>
   (\<exists>cached heap'.
      rapidfuzz_cached_init exact_match example_allocator [107, 105] empty_heap =
        (Normal cached, heap') \<and>
      ready cached heap' \<and> buffer cached = Some 1 \<and> block cached = Some 2 \<and>
      buflen cached = 2 \<and> heap' 1 = Some (Chars [107, 105, 0]) \<and>
      heap' 2 = Some (Object (1, 2) [107, 105]))"
proof -
  have a: "malloc_at example_allocator = Some 1" "new_at example_allocator = Some 2"
    by (simp_all add: example_allocator_def)
  have h: "empty_heap 1 = (None :: byte list cell option)"
      "empty_heap 2 = (None :: byte list cell option)"
    by (simp_all add: empty_heap_def)
  have d: "(2::nat) \<noteq> 1"
    by simp
  have z: "0 \<notin> set [107, 105 :: byte]"
    by simp
  from create_copies_c_string [OF a(1) h(1) a(2) h(2) d, of exact_match "[107, 105]"]
  obtain cached heap' where
    c: "rapidfuzz_cached_init exact_match example_allocator [107, 105] empty_heap =
          (Normal cached, heap')"
      "ready cached heap'" "buffer cached = Some 1" "block cached = Some 2"
      "heap' 2 = Some (Object (1, buflen cached)
         (construct exact_match (string_view heap' 1 (buflen cached))))"
      "string_view heap' 1 (buflen cached) = c_string [107, 105]"
      "0 \<notin> set [107, 105 :: byte] \<longrightarrow>
         buflen cached = length [107, 105 :: byte] \<and>
         heap' 1 = Some (Chars ([107, 105] @ [0]))"
    by blast
  from c(7) z have l: "buflen cached = 2" "heap' 1 = Some (Chars [107, 105, 0])"
    by simp_all
  have "c_string [107, 105] = [107, 105 :: byte]"
    by (simp add: c_string_def)
  with c(5,6) l have "heap' 2 = Some (Object (1, 2) [107, 105])"
    by (simp add: exact_match_def)
  with a h z c l show ?thesis
    by blast
qed

section \<open>The stateless distance\<close>

text \<open>
  C7. For all byte sequences \<open>a\<close> and \<open>b\<close>, \<^verbatim>\<open>rapidfuzz_levenshtein\<close> returns \<open>1 - p / 100\<close>
  where \<open>p\<close> is the library's \<^verbatim>\<open>normalized_levenshtein\<close> of \<open>a\<close> and \<open>b\<close>. When \<open>p\<close> is a
  percentage the result lies between 0 and 1; when the library scores two empty
  sequences at 100 the result for them is 0; and when it scores the empty sequence
  against a non-empty one at 0 the result is 1.
\<close>

theorem levenshtein_adapts:
  "rapidfuzz_levenshtein C a b = 1 - normalized_levenshtein C a b / 100 \<and>
   (percentage (normalized_levenshtein C a b) \<longrightarrow>
      0 \<le> rapidfuzz_levenshtein C a b \<and> rapidfuzz_levenshtein C a b \<le> 1) \<and>
   (normalized_levenshtein C [] [] = 100 \<longrightarrow> rapidfuzz_levenshtein C [] [] = 0) \<and>
   (b \<noteq> [] \<and> normalized_levenshtein C [] b = 0 \<longrightarrow>
      rapidfuzz_levenshtein C [] b = 1 \<and> 0 < rapidfuzz_levenshtein C [] b)"
  by (simp add: rapidfuzz_levenshtein_def percentage_def)

theorem levenshtein_adapts_witness:
  "percentage (normalized_levenshtein exact_match [] [97, 98, 99]) \<and>
   normalized_levenshtein exact_match [] [] = 100 \<and>
   [97, 98, 99 :: byte] \<noteq> [] \<and> normalized_levenshtein exact_match [] [97, 98, 99] = 0 \<and>
   rapidfuzz_levenshtein exact_match [] [] = 0 \<and>
   rapidfuzz_levenshtein exact_match [] [97, 98, 99] = 1"
  using levenshtein_adapts [of exact_match "[]" "[97, 98, 99]"]
  by (simp add: exact_match_def percentage_def)

text \<open>
  C8. For a library that meets the contract of the spec (\<open>levenshtein_contract\<close>):
  \<^verbatim>\<open>rapidfuzz_levenshtein\<close> of a sequence and itself is 0, the function is symmetric in
  its two arguments, and its result lies between 0 and 1.
\<close>

theorem levenshtein_distance_properties:
  assumes "levenshtein_contract C"
  shows "rapidfuzz_levenshtein C s s = 0 \<and>
         rapidfuzz_levenshtein C a b = rapidfuzz_levenshtein C b a \<and>
         0 \<le> rapidfuzz_levenshtein C a b \<and> rapidfuzz_levenshtein C a b \<le> 1"
proof -
  from assms have p: "0 \<le> normalized_levenshtein C a b" "normalized_levenshtein C a b \<le> 100"
    and i: "normalized_levenshtein C s s = 100"
    and c: "normalized_levenshtein C a b = normalized_levenshtein C b a"
    by (simp_all add: levenshtein_contract_def percentage_def)
  have "rapidfuzz_levenshtein C s s = 0"
    by (simp add: rapidfuzz_levenshtein_def i)
  moreover have "rapidfuzz_levenshtein C a b = rapidfuzz_levenshtein C b a"
    by (simp add: rapidfuzz_levenshtein_def c)
  moreover have "0 \<le> rapidfuzz_levenshtein C a b" "rapidfuzz_levenshtein C a b \<le> 1"
    using p by (simp_all add: rapidfuzz_levenshtein_def)
  ultimately show ?thesis
    by simp
qed

theorem levenshtein_distance_properties_witness:
  "levenshtein_contract exact_match \<and>
   rapidfuzz_levenshtein exact_match [107, 105] [107, 105] = 0 \<and>
   rapidfuzz_levenshtein exact_match [107] [115] = rapidfuzz_levenshtein exact_match [115] [107] \<and>
   0 \<le> rapidfuzz_levenshtein exact_match [107] [115] \<and>
   rapidfuzz_levenshtein exact_match [107] [115] \<le> 1"
proof -
  have c: "levenshtein_contract exact_match"
    by (simp add: levenshtein_contract_def percentage_def exact_match_def)
  from levenshtein_distance_properties [OF c, of "[107, 105]" "[107]" "[115]"] c
  show ?thesis
    by simp
qed

section \<open>Allocation accounting\<close>

text \<open>
  When \<^verbatim>\<open>malloc\<close> refuses the buffer, create returns the null handle and the heap is the
  one it started from: nothing was allocated, nothing is left behind.
\<close>

theorem create_malloc_refused_returns_null:
  assumes "malloc heap al (strlen (str @ [0]) + 1) = None"
  shows "rapidfuzz_cached_init C al str heap = (Normal rapidfuzz_cached_null, heap)"
  using assms by (rule init_malloc_refused)

theorem create_malloc_refused_returns_null_witness:
  "malloc example_heap \<lparr>malloc_at = None, malloc_fill = 170, new_at = Some 3\<rparr>
     (strlen ([107, 105] @ [0]) + 1) = None \<and>
   rapidfuzz_cached_init exact_match \<lparr>malloc_at = None, malloc_fill = 170, new_at = Some 3\<rparr>
     [107, 105] example_heap = (Normal rapidfuzz_cached_null, example_heap)"
proof -
  have m: "malloc example_heap \<lparr>malloc_at = None, malloc_fill = 170, new_at = Some 3\<rparr>
      (strlen ([107, 105] @ [0]) + 1) = None"
    by (simp add: malloc_def)
  from create_malloc_refused_returns_null [OF m, of exact_match] m show ?thesis
    by simp
qed

text \<open>
  One cycle of create and destroy, from any heap in which both allocations succeed: the
  destroy returns the null handle and releases the buffer, and the heap afterwards is the
  heap before with one more cell, the storage \<^verbatim>\<open>new\<close> obtained for the object. The
  destructor call ends the object; nothing returns its storage.
\<close>

theorem create_destroy_heap:
  assumes "malloc_at al = Some p" and "heap p = None"
    and "new_at al = Some q" and "heap q = None" and "q \<noteq> p"
  shows "\<exists>cached heap1.
           rapidfuzz_cached_init C al str heap = (Normal cached, heap1) \<and>
           rapidfuzz_cached_deinit cached heap1 =
             Some (rapidfuzz_cached_null, heap(q \<mapsto> Storage))"
proof -
  let ?cached = "\<lparr>buffer = Some p, buflen = length (c_string str), block = Some q\<rparr>"
  let ?heap1 = "heap(p \<mapsto> Chars (c_string str @ [0]),
                     q \<mapsto> Object (p, length (c_string str)) (construct C (c_string str)))"
  have i: "rapidfuzz_cached_init C al str heap = (Normal ?cached, ?heap1)"
    using assms by (rule init_ok)
  have "ready ?cached ?heap1"
    using assms(5) by (simp add: ready_def)
  from deinit_ready [OF this]
  have d: "rapidfuzz_cached_deinit ?cached ?heap1 =
      Some (rapidfuzz_cached_null, (?heap1(q \<mapsto> Storage))(p := None))"
    by simp
  have "(?heap1(q \<mapsto> Storage))(p := None) = heap(q \<mapsto> Storage)"
    using assms(2,5) by (auto simp: fun_eq_iff)
  with i d show ?thesis
    by simp
qed

theorem create_destroy_heap_witness:
  "malloc_at example_allocator = Some 1 \<and> empty_heap 1 = (None :: byte list cell option) \<and>
   new_at example_allocator = Some 2 \<and> empty_heap 2 = (None :: byte list cell option) \<and>
   (\<exists>cached heap1.
      rapidfuzz_cached_init exact_match example_allocator [107, 105] empty_heap =
        (Normal cached, heap1) \<and>
      rapidfuzz_cached_deinit cached heap1 =
        Some (rapidfuzz_cached_null, empty_heap(2 \<mapsto> Storage)))"
proof -
  have a: "malloc_at example_allocator = Some 1" "new_at example_allocator = Some 2"
    by (simp_all add: example_allocator_def)
  have h: "empty_heap 1 = (None :: byte list cell option)"
      "empty_heap 2 = (None :: byte list cell option)"
    by (simp_all add: empty_heap_def)
  have d: "(2::nat) \<noteq> 1"
    by simp
  from create_destroy_heap [OF a(1) h(1) a(2) h(2) d, of exact_match "[107, 105]"] a h
  show ?thesis
    by simp
qed

text \<open>
  C3 asks that no allocation of a create, score, destroy cycle stays live. Run on the
  empty heap with the reference \<^verbatim>\<open>"ki"\<close>: create returns the example handle, a score in
  between reads the heap only, and after destroy the heap still holds the storage of the
  \<^verbatim>\<open>CachedRatio\<close> at address 2, which the empty heap did not.
\<close>

theorem create_destroy_leaks_block:
  "rapidfuzz_cached_init exact_match example_allocator [107, 105] empty_heap =
     (Normal example_handle, example_heap) \<and>
   rapidfuzz_cached_ratio exact_match example_handle [115, 105] example_heap = Some 1 \<and>
   rapidfuzz_cached_deinit example_handle example_heap =
     Some (rapidfuzz_cached_null, empty_heap(2 \<mapsto> Storage)) \<and>
   (empty_heap(2 \<mapsto> Storage)) 2 = Some (Storage :: byte list cell) \<and>
   empty_heap 2 = (None :: byte list cell option)"
proof -
  have "rapidfuzz_cached_ratio exact_match example_handle [115, 105] example_heap = Some 1"
    by (simp add: rapidfuzz_cached_ratio_def example_handle_def example_heap_def exact_match_def)
  with example_run example_destroy show ?thesis
    by (simp add: empty_heap_def)
qed

text \<open>
  C5 asks that a failed buffer allocation be the only way a create fails, and that no
  create throws or leaks. Run on the empty heap with the reference \<^verbatim>\<open>"ki"\<close>, \<^verbatim>\<open>malloc\<close>
  granting address 1 and \<^verbatim>\<open>new\<close> refused: the call does not return a handle, the
  \<^verbatim>\<open>std::bad_alloc\<close> leaves it, and the buffer at address 1 stays allocated.
\<close>

theorem create_new_refused_throws:
  "rapidfuzz_cached_init exact_match \<lparr>malloc_at = Some 1, malloc_fill = 170, new_at = None\<rparr> [107, 105] empty_heap =
     (Bad_alloc, empty_heap(1 \<mapsto> Chars [107, 105, 0]))"
proof -
  have cs: "c_string [107, 105] = [107, 105 :: byte]"
    by (simp add: c_string_def)
  have "rapidfuzz_cached_init exact_match \<lparr>malloc_at = Some 1, malloc_fill = 170, new_at = None\<rparr> [107, 105] empty_heap =
     (Bad_alloc, empty_heap(1 \<mapsto> Chars (c_string [107, 105] @ [0])))"
    by (rule init_new_refused) (simp_all add: empty_heap_def)
  then show ?thesis
    by (simp only: cs append.simps)
qed

end
